theory Spec2Isabelle
  imports Main "HOL-Library.Char_ord" "HOL-Library.List_Lexorder" "HOL-Library.Multiset"
begin

section \<open>The command-line entry point of squabble\<close>

text \<open>
  The development follows \<^verbatim>\<open>squabble/__main__.py\<close>: \<^verbatim>\<open>main\<close>, \<^verbatim>\<open>lint_file\<close>,
  \<^verbatim>\<open>collect_files\<close>, \<^verbatim>\<open>show_rule\<close>, \<^verbatim>\<open>list_rules\<close> and \<^verbatim>\<open>list_presets\<close>.
  A run starts from the dictionary that docopt returns. Every call that leaves the module
  (logger, configuration, rule registry, file system, linter, reporter, standard output) is
  written to a trace, in the order in which the program makes it, and an exception is a value:
  a computation returns its trace together with either the exception that ended it or its
  result. A Python \<^verbatim>\<open>str\<close> is a \<^typ>\<open>string\<close>.
\<close>

subsection \<open>Data\<close>

type_synonym path = string

text \<open>
  The dictionary of docopt for the usage text of the module. A flag is a truth value, an
  option with an argument is \<^verbatim>\<open>None\<close> when it is absent.
\<close>

record args =
  arg_verbose :: bool
  arg_PATHS :: "path list"
  arg_preset :: "string option"
  arg_list_presets :: bool
  arg_config :: "path option"
  arg_list_rules :: bool
  arg_show_rule :: "string option"

text \<open>
  Python's truth test on such a value, as in \<^verbatim>\<open>args['--config'] or ...\<close> and
  \<^verbatim>\<open>elif args['--show-rule']\<close>: \<^verbatim>\<open>None\<close> and the empty string are false.
\<close>

fun truthy :: "string option \<Rightarrow> bool" where
  "truthy None = False"
| "truthy (Some s) = (s \<noteq> [])"

text \<open>
  \<^verbatim>\<open>sys.exit(message)\<close> writes the message to standard error and ends the process with
  status 1; \<^verbatim>\<open>sys.exit(n)\<close> ends it with status \<open>n\<close>; any other exception that nobody
  catches ends it with status 1 as well.
\<close>

datatype exn =
    SystemExit_msg string
  | SystemExit_code int
  | UnknownRuleException string
  | OtherException string

text \<open>
  Modelled from the spec: the \<^verbatim>\<open>Config\<close> type is declared in the module \<^verbatim>\<open>config\<close>, which
  is not among the sources. The spec gives a configuration a mapping from rule names to
  option bundles, a reporter identifier and the plugin locations; the entry point reads the
  fields \<^verbatim>\<open>reporter\<close> and \<^verbatim>\<open>plugins\<close> only.
\<close>

record config =
  rules :: "(string \<times> (string \<times> string) list) list"
  reporter :: string
  plugins :: "path list"

text \<open>
  Modelled from the spec: an entry of the table \<^verbatim>\<open>config.PRESETS\<close>, which is not among the
  sources. \<^verbatim>\<open>list_presets\<close> reads its optional \<^verbatim>\<open>'description'\<close> and its \<^verbatim>\<open>'config'\<close>;
  the latter is kept as the text that \<^verbatim>\<open>json.dumps(_, indent=4)\<close> gives for it.
\<close>

record preset =
  preset_description :: "string option"
  preset_config :: string

text \<open>
  Modelled from the spec: the metadata of a rule (name, one-line description, help text) and
  the registry, a catalogue from rule names to metadata. \<^verbatim>\<open>rule.Registry\<close> is not among the
  sources; \<^verbatim>\<open>get_meta\<close> follows the spec's lookup, which returns the descriptor or fails
  with the unknown-rule error, and \<^verbatim>\<open>all\<close> gives every descriptor.
\<close>

record meta =
  meta_name :: string
  meta_description :: string
  meta_help :: string

type_synonym registry = "(string \<times> meta) list"

definition get_meta :: "registry \<Rightarrow> string \<Rightarrow> exn + meta" where
  "get_meta reg name =
     (case map_of reg name of
        None \<Rightarrow> Inl (UnknownRuleException name)
      | Some m \<Rightarrow> Inr m)"

definition registry_all :: "registry \<Rightarrow> meta list" where
  "registry_all reg = map snd reg"

subsection \<open>Calls to collaborators\<close>

text \<open>One constructor for each call that leaves the module; \<open>'i\<close> is the type of issues.\<close>

datatype 'i event =
    Logger_setLevel string
  | Print string
  | Discover_config_location
  | Os_path_exists path
  | Load_config "path option" "string option"
  | Load_rules "path list"
  | Registry_get_meta string
  | Registry_all
  | Os_path_expanduser path
  | Os_path_isdir path
  | Glob_iglob string
  | Apply_file_config config path
  | Check_file config path
  | Reporter_report string "'i list"

text \<open>
  Modelled from the spec: what the collaborators answer in one run. The modules \<^verbatim>\<open>config\<close>,
  \<^verbatim>\<open>rule\<close>, \<^verbatim>\<open>lint\<close> and \<^verbatim>\<open>reporter\<close> are not among the sources, so their functions are
  parameters. Resolving the base configuration and loading the rules may raise (an unknown
  preset, a plugin that cannot be loaded, a duplicate rule). \<^verbatim>\<open>apply_file_config\<close> returns
  a derived configuration and leaves the base as it is, and \<^verbatim>\<open>check_file\<close> returns the issues
  of one file: the spec has the pipeline record the failure of a file or of a rule as an
  issue. \<^verbatim>\<open>reporter.report\<close> writes the issues out and returns; \<^verbatim>\<open>main\<close> does not use
  its result, so it is an event of the trace only.

  The remaining fields are the file system. \<^verbatim>\<open>expanduser\<close>, \<^verbatim>\<open>path_exists\<close> and \<^verbatim>\<open>isdir\<close>
  are \<^verbatim>\<open>os.path\<close> on path names. \<^verbatim>\<open>scandir\<close> gives the entries of the directory with a
  given path name, every entry with its name and what it is; it gives no entry for a path
  that is not a directory, where \<^verbatim>\<open>glob\<close> ignores the error of \<^verbatim>\<open>os.scandir\<close>. An entry
  that \<^verbatim>\<open>is_dir()\<close> holds of (a directory, or a link to one) is a \<open>Dir\<close> with its own
  entries, any other entry is a \<open>File\<close>; the tree is finite. \<^verbatim>\<open>iglob_other\<close> is what
  \<^verbatim>\<open>glob.iglob\<close> yields for a pattern of another shape than the one described below.
\<close>

datatype node = File | Dir "(string \<times> node) list"

record 'i env =
  PRESETS :: "(string \<times> preset) list"
  discover_config_location :: "path option"
  load_config :: "path option \<Rightarrow> string option \<Rightarrow> exn + config"
  load_rules :: "path list \<Rightarrow> exn + registry"
  apply_file_config :: "config \<Rightarrow> path \<Rightarrow> config"
  check_file :: "config \<Rightarrow> path \<Rightarrow> 'i list"
  expanduser :: "path \<Rightarrow> path"
  path_exists :: "path \<Rightarrow> bool"
  isdir :: "path \<Rightarrow> bool"
  scandir :: "path \<Rightarrow> (string \<times> node) list"
  iglob_other :: "string \<Rightarrow> path list"

subsection \<open>Computations with a trace\<close>

type_synonym ('i, 'a) io = "'i event list \<times> (exn + 'a)"

definition io_ret :: "'a \<Rightarrow> ('i, 'a) io" where
  "io_ret x = ([], Inr x)"

definition io_raise :: "exn \<Rightarrow> ('i, 'a) io" where
  "io_raise e = ([], Inl e)"

definition io_call :: "'i event \<Rightarrow> exn + 'a \<Rightarrow> ('i, 'a) io" where
  "io_call ev r = ([ev], r)"

definition io_bind :: "('i, 'a) io \<Rightarrow> ('a \<Rightarrow> ('i, 'b) io) \<Rightarrow> ('i, 'b) io" where
  "io_bind m f =
     (case snd m of
        Inl e \<Rightarrow> (fst m, Inl e)
      | Inr x \<Rightarrow> (fst m @ fst (f x), snd (f x)))"

definition io_total :: "'i event list \<times> 'a \<Rightarrow> ('i, 'a) io" where
  "io_total m = (fst m, Inr (snd m))"

definition io_after :: "'i event list \<Rightarrow> ('i, 'a) io \<Rightarrow> ('i, 'a) io" where
  "io_after evs m = (evs @ fst m, snd m)"

text \<open>The status with which the process ends.\<close>

fun exit_status :: "exn + unit \<Rightarrow> int" where
  "exit_status (Inr _) = 0"
| "exit_status (Inl (SystemExit_code n)) = n"
| "exit_status (Inl _) = 1"

subsection \<open>Strings\<close>

text \<open>
  \<^verbatim>\<open>colorama.Style.BRIGHT\<close> and \<^verbatim>\<open>colorama.Style.RESET_ALL\<close>, and
  \<^verbatim>\<open>s.replace('\n', new)\<close>.
\<close>

definition Style_BRIGHT :: string where
  "Style_BRIGHT = CHR 0x1B # ''[1m''"

definition Style_RESET_ALL :: string where
  "Style_RESET_ALL = CHR 0x1B # ''[0m''"

definition replace_newline :: "string \<Rightarrow> string \<Rightarrow> string" where
  "replace_newline new s = concat (map (\<lambda>c. if c = CHR 0x0A then new else [c]) s)"

text \<open>\<^verbatim>\<open>os.path.join(a, b)\<close> of \<^verbatim>\<open>posixpath\<close>, for two components.\<close>

definition os_path_join :: "path \<Rightarrow> path \<Rightarrow> path" where
  "os_path_join a b =
     (if b \<noteq> [] \<and> hd b = CHR ''/'' then b
      else if a = [] \<or> last a = CHR ''/'' then a @ b
      else a @ ''/'' @ b)"

text \<open>\<^verbatim>\<open>'{name: <32}'\<close>: the name, filled with spaces on the right up to 32 characters.\<close>

definition ljust32 :: "string \<Rightarrow> string" where
  "ljust32 s = s @ replicate (32 - length s) CHR '' ''"

subsection \<open>The recursive glob\<close>

text \<open>
  \<^verbatim>\<open>os.path.split(p)\<close> of \<^verbatim>\<open>posixpath\<close>: the tail is what follows the last slash; the
  head is what precedes it, without its trailing slashes unless it consists of slashes only.
\<close>

definition rstrip_sep :: "path \<Rightarrow> path" where
  "rstrip_sep p = rev (dropWhile (\<lambda>c. c = CHR ''/'') (rev p))"

definition os_path_split :: "path \<Rightarrow> path \<times> path" where
  "os_path_split p =
     (let tail = rev (takeWhile (\<lambda>c. c \<noteq> CHR ''/'') (rev p));
          head = take (length p - length tail) p
      in (if head \<noteq> [] \<and> \<not> list_all (\<lambda>c. c = CHR ''/'') head then rstrip_sep head else head,
          tail))"

text \<open>
  Of the module \<^verbatim>\<open>glob\<close>: \<^verbatim>\<open>has_magic\<close> (one of the characters \<^verbatim>\<open>*\<close>, \<^verbatim>\<open>?\<close>, \<^verbatim>\<open>[\<close>
  occurs), \<^verbatim>\<open>_ishidden\<close> (the name starts with a dot), and the test of \<^verbatim>\<open>fnmatch\<close> for
  the pattern \<^verbatim>\<open>*.sql\<close>, which holds of the names that end in \<^verbatim>\<open>.sql\<close>.
\<close>

definition has_magic :: "string \<Rightarrow> bool" where
  "has_magic s = list_ex (\<lambda>c. c = CHR ''*'' \<or> c = CHR ''?'' \<or> c = CHR ''['') s"

definition ishidden :: "string \<Rightarrow> bool" where
  "ishidden name = (name \<noteq> [] \<and> hd name = CHR ''.'')"

definition endswith :: "string \<Rightarrow> string \<Rightarrow> bool" where
  "endswith s suffix =
     (length suffix \<le> length s \<and> drop (length s - length suffix) s = suffix)"

text \<open>
  \<^verbatim>\<open>_glob1(dirname, '*.sql', dironly=False)\<close>: the names in a directory that are not
  hidden and match the pattern, whatever the entry is.
\<close>

definition glob1 :: "(string \<times> node) list \<Rightarrow> string list" where
  "glob1 entries =
     filter (\<lambda>name. \<not> ishidden name \<and> endswith name ''.sql'') (map fst entries)"

text \<open>
  \<^verbatim>\<open>_rlistdir(dirname, dironly=True)\<close>: the directories below a directory, each by its
  path relative to it, in the order of a walk that visits a directory before what is in it;
  a hidden directory is passed over with all that is below it. Every directory comes with
  its entries, which is what a later \<^verbatim>\<open>os.scandir\<close> of its path reads.
\<close>

fun rlistdir :: "(string \<times> node) list \<Rightarrow> (path \<times> (string \<times> node) list) list" where
  "rlistdir [] = []"
| "rlistdir ((x, File) # entries) = rlistdir entries"
| "rlistdir ((x, Dir sub) # entries) =
     (if ishidden x then []
      else (x, sub) # map (\<lambda>(y, s). (os_path_join x y, s)) (rlistdir sub))
     @ rlistdir entries"

text \<open>
  \<^verbatim>\<open>glob.iglob(pathname, recursive=True)\<close> for a pattern \<^verbatim>\<open>root/**/*.sql\<close> whose \<^verbatim>\<open>root\<close>
  is not empty and has no magic character. The pattern is split twice. The inner glob of
  \<^verbatim>\<open>root/**\<close> yields \<^verbatim>\<open>root\<close> joined to the empty string and to every directory that
  \<^verbatim>\<open>_rlistdir\<close> finds; the outer glob joins each of them to the names that \<^verbatim>\<open>_glob1\<close>
  finds in it. For any other pattern the result is a parameter.
\<close>

definition iglob :: "'i env \<Rightarrow> string \<Rightarrow> path list" where
  "iglob env pathname =
     (let (dirname, basename) = os_path_split pathname;
          (root, stars) = os_path_split dirname
      in if basename = ''*.sql'' \<and> stars = ''**'' \<and> root \<noteq> [] \<and> \<not> has_magic root then
           concat (map (\<lambda>(d, entries). map (os_path_join d) (glob1 entries))
             ((os_path_join root [], scandir env root) #
              map (\<lambda>(rel, entries). (os_path_join root rel, entries))
                (rlistdir (scandir env root))))
         else iglob_other env pathname)"

subsection \<open>The functions of the module\<close>

text \<open>\<^verbatim>\<open>list_presets\<close>: two lines for every preset, in the order of the table.\<close>

definition left_pad :: string where
  "left_pad = ''    ''"

definition list_presets :: "'i env \<Rightarrow> ('i, unit) io" where
  "list_presets env =
     (concat (map (\<lambda>(name, preset).
        [Print (Style_BRIGHT @ name @ Style_RESET_ALL @ '' - '' @
                (case preset_description preset of None \<Rightarrow> [] | Some d \<Rightarrow> d)),
         Print (left_pad @ replace_newline (CHR 0x0A # left_pad) (preset_config preset))])
        (PRESETS env)),
      Inr ())"

text \<open>\<^verbatim>\<open>list_rules\<close>: one line for every rule, sorted by name (the sort is stable).\<close>

definition list_rules :: "registry \<Rightarrow> ('i, unit) io" where
  "list_rules reg =
     (let all_rules = sort_key meta_name (registry_all reg)
      in (Registry_all #
          map (\<lambda>m. Print (Style_BRIGHT @ ljust32 (meta_name m) @ Style_RESET_ALL @ '' '' @
                           meta_description m)) all_rules,
          Inr ()))"

text \<open>
  \<^verbatim>\<open>show_rule\<close>: the handler catches the unknown-rule exception only and leaves the process
  through \<^verbatim>\<open>sys.exit\<close> with a message.
\<close>

definition show_rule :: "registry \<Rightarrow> string \<Rightarrow> ('i, unit) io" where
  "show_rule reg name =
     (case get_meta reg name of
        Inl (UnknownRuleException n) \<Rightarrow>
          ([Registry_get_meta name],
           Inl (SystemExit_msg (Style_BRIGHT @ ''Unknown rule:'' @ Style_RESET_ALL @ '' '' @ name)))
      | Inl e \<Rightarrow> ([Registry_get_meta name], Inl e)
      | Inr m \<Rightarrow>
          ([Registry_get_meta name,
            Print (Style_BRIGHT @ meta_name m @ Style_RESET_ALL @ '' - '' @ meta_description m @
                   [CHR 0x0A] @ meta_help m)],
           Inr ()))"

text \<open>
  \<^verbatim>\<open>collect_files\<close>: the loop over \<^verbatim>\<open>map(os.path.expanduser, paths)\<close>, which expands a
  path when the loop reaches it, with the list \<^verbatim>\<open>files\<close> built so far.
\<close>

fun collect_loop :: "'i env \<Rightarrow> path list \<Rightarrow> path list \<Rightarrow> ('i, path list) io" where
  "collect_loop env [] files = io_ret files"
| "collect_loop env (p # ps) files =
     (let path = expanduser env p in
      if \<not> path_exists env path then
        ([Os_path_expanduser p, Os_path_exists path],
         Inl (SystemExit_msg (path @ '': no such file or directory'')))
      else if isdir env path then
        (let sql = os_path_join path ''**/*.sql'' in
         io_after [Os_path_expanduser p, Os_path_exists path, Os_path_isdir path, Glob_iglob sql]
           (collect_loop env ps (files @ iglob env sql)))
      else
        io_after [Os_path_expanduser p, Os_path_exists path, Os_path_isdir path]
          (collect_loop env ps (files @ [path])))"

definition collect_files :: "'i env \<Rightarrow> path list \<Rightarrow> ('i, path list) io" where
  "collect_files env paths = collect_loop env paths []"

text \<open>\<^verbatim>\<open>lint_file\<close>: its trace and the issues it returns.\<close>

definition lint_file :: "'i env \<Rightarrow> config \<Rightarrow> path \<Rightarrow> 'i event list \<times> 'i list" where
  "lint_file env base_config file_name =
     (let file_config = apply_file_config env base_config file_name
      in ([Apply_file_config base_config file_name, Check_file file_config file_name],
          check_file env file_config file_name))"

text \<open>
  The loop \<^verbatim>\<open>for file_name in files: issues += lint_file(base_config, file_name)\<close> of
  \<^verbatim>\<open>main\<close>, which starts from the empty list.
\<close>

fun lint_loop :: "'i env \<Rightarrow> config \<Rightarrow> path list \<Rightarrow> 'i list \<Rightarrow> 'i event list \<times> 'i list" where
  "lint_loop env base_config [] issues = ([], issues)"
| "lint_loop env base_config (file_name # files) issues =
     (let r = lint_file env base_config file_name;
          rest = lint_loop env base_config files (issues @ snd r)
      in (fst r @ fst rest, snd rest))"

definition lint_all :: "'i env \<Rightarrow> config \<Rightarrow> path list \<Rightarrow> 'i event list \<times> 'i list" where
  "lint_all env base_config files = lint_loop env base_config files []"

subsection \<open>Configurations as objects\<close>

text \<open>
  In Python \<^verbatim>\<open>base_config\<close> is a reference to an object, and a callee that is handed the
  reference could change the object. The functions of this section are \<^verbatim>\<open>lint_file\<close> and
  the loop of \<^verbatim>\<open>main\<close> once more, on a store: a list of the configuration objects that
  exist, a reference being the position of its object. A call is written to the trace with
  the contents that its argument has when the call is made.
\<close>

type_synonym ref = nat
type_synonym store = "config list"

text \<open>
  Modelled from the spec: \<^verbatim>\<open>config.apply_file_config\<close> on objects. The spec has it produce
  a derived configuration scoped to the file, every merge step making a new configuration,
  and never mutate the base: the derived configuration is a new object, and no object that
  exists is written.
\<close>

definition apply_file_config_obj :: "'i env \<Rightarrow> store \<Rightarrow> ref \<Rightarrow> path \<Rightarrow> store \<times> ref" where
  "apply_file_config_obj env st base_config file_name =
     (st @ [apply_file_config env (st ! base_config) file_name], length st)"

definition lint_file_obj ::
  "'i env \<Rightarrow> store \<Rightarrow> ref \<Rightarrow> path \<Rightarrow> store \<times> 'i event list \<times> 'i list" where
  "lint_file_obj env st base_config file_name =
     (let (st', file_config) = apply_file_config_obj env st base_config file_name
      in (st',
          [Apply_file_config (st ! base_config) file_name, Check_file (st' ! file_config) file_name],
          check_file env (st' ! file_config) file_name))"

fun lint_loop_obj ::
  "'i env \<Rightarrow> store \<Rightarrow> ref \<Rightarrow> path list \<Rightarrow> 'i list \<Rightarrow> store \<times> 'i event list \<times> 'i list" where
  "lint_loop_obj env st base_config [] issues = (st, [], issues)"
| "lint_loop_obj env st base_config (file_name # files) issues =
     (let (st', t, found) = lint_file_obj env st base_config file_name;
          (st'', t', all_issues) = lint_loop_obj env st' base_config files (issues @ found)
      in (st'', t @ t', all_issues))"

definition lint_all_obj ::
  "'i env \<Rightarrow> store \<Rightarrow> ref \<Rightarrow> path list \<Rightarrow> store \<times> 'i event list \<times> 'i list" where
  "lint_all_obj env st base_config files = lint_loop_obj env st base_config files []"

text \<open>
  \<^verbatim>\<open>config_file = args['--config'] or config.discover_config_location()\<close>: the second
  operand is evaluated only when the first is false.
\<close>

definition config_file_of :: "'i env \<Rightarrow> args \<Rightarrow> path option" where
  "config_file_of env args =
     (if truthy (arg_config args) then arg_config args else discover_config_location env)"

definition find_config_file :: "'i env \<Rightarrow> args \<Rightarrow> ('i, path option) io" where
  "find_config_file env args =
     (if truthy (arg_config args) then io_ret (arg_config args)
      else io_call Discover_config_location (Inr (discover_config_location env)))"

text \<open>\<^verbatim>\<open>if config_file and not os.path.exists(config_file): sys.exit(...)\<close>\<close>

definition check_config_file :: "'i env \<Rightarrow> path option \<Rightarrow> ('i, unit) io" where
  "check_config_file env config_file =
     (if truthy config_file then
        (if \<not> path_exists env (the config_file) then
           ([Os_path_exists (the config_file)],
            Inl (SystemExit_msg (the config_file @ '': no such file or directory'')))
         else io_call (Os_path_exists (the config_file)) (Inr ()))
      else io_ret ())"

text \<open>\<^verbatim>\<open>main\<close>, from the dictionary of docopt on.\<close>

definition main :: "'i env \<Rightarrow> args \<Rightarrow> ('i, unit) io" where
  "main env args =
     io_bind (if arg_verbose args then io_call (Logger_setLevel ''DEBUG'') (Inr ())
              else io_ret ()) (\<lambda>_.
     let paths = arg_PATHS args; preset = arg_preset args in
     if arg_list_presets args then list_presets env
     else
     io_bind (find_config_file env args) (\<lambda>config_file.
     io_bind (check_config_file env config_file) (\<lambda>_.
     io_bind (io_call (Load_config config_file preset) (load_config env config_file preset))
       (\<lambda>base_config.
     io_bind (io_call (Load_rules (plugins base_config)) (load_rules env (plugins base_config)))
       (\<lambda>reg.
     if arg_list_rules args then list_rules reg
     else if truthy (arg_show_rule args) then show_rule reg (the (arg_show_rule args))
     else
     io_bind (collect_files env paths) (\<lambda>files.
     io_bind (io_total (lint_all env base_config files)) (\<lambda>issues.
     io_bind (io_call (Reporter_report (reporter base_config) issues) (Inr ())) (\<lambda>_.
     if issues \<noteq> [] then io_raise (SystemExit_code 1) else io_ret ()))))))))"

subsection \<open>Reading a trace\<close>

text \<open>The kinds of events that the properties below tell apart.\<close>

fun is_load_config :: "'i event \<Rightarrow> bool" where
  "is_load_config (Load_config cf p) = True"
| "is_load_config ev = False"

fun is_load_rules :: "'i event \<Rightarrow> bool" where
  "is_load_rules (Load_rules ps) = True"
| "is_load_rules ev = False"

fun is_fs_event :: "'i event \<Rightarrow> bool" where
  "is_fs_event (Os_path_expanduser p) = True"
| "is_fs_event (Os_path_exists p) = True"
| "is_fs_event (Os_path_isdir p) = True"
| "is_fs_event (Glob_iglob pat) = True"
| "is_fs_event ev = False"

fun is_lint_event :: "'i event \<Rightarrow> bool" where
  "is_lint_event (Apply_file_config c f) = True"
| "is_lint_event (Check_file c f) = True"
| "is_lint_event ev = False"

fun is_report :: "'i event \<Rightarrow> bool" where
  "is_report (Reporter_report r is) = True"
| "is_report ev = False"

fun is_print :: "'i event \<Rightarrow> bool" where
  "is_print (Print s) = True"
| "is_print ev = False"

fun is_listing_event :: "'i event \<Rightarrow> bool" where
  "is_listing_event (Print s) = True"
| "is_listing_event Registry_all = True"
| "is_listing_event (Registry_get_meta n) = True"
| "is_listing_event ev = False"

text \<open>\<open>never_after P Q t\<close>: in the trace \<open>t\<close>, no event of kind \<open>P\<close> comes after one of kind \<open>Q\<close>.\<close>

fun never_after :: "('a \<Rightarrow> bool) \<Rightarrow> ('a \<Rightarrow> bool) \<Rightarrow> 'a list \<Rightarrow> bool" where
  "never_after P Q [] = True"
| "never_after P Q (x # xs) = ((Q x \<longrightarrow> \<not> list_ex P xs) \<and> never_after P Q xs)"

text \<open>The events of \<^verbatim>\<open>main\<close> up to the test of the configuration file.\<close>

definition verbose_events :: "args \<Rightarrow> 'i event list" where
  "verbose_events args = (if arg_verbose args then [Logger_setLevel ''DEBUG''] else [])"

definition config_events :: "'i env \<Rightarrow> args \<Rightarrow> 'i event list" where
  "config_events env args =
     verbose_events args @ fst (find_config_file env args) @
     fst (check_config_file env (config_file_of env args))"

text \<open>
  What \<^verbatim>\<open>collect_files\<close> adds to the list for one path: the matches of the pattern for a
  directory, the expanded path otherwise.
\<close>

definition collected_for :: "'i env \<Rightarrow> path \<Rightarrow> path list" where
  "collected_for env p =
     (let path = expanduser env p in
      if isdir env path then iglob env (os_path_join path ''**/*.sql'') else [path])"

text \<open>
  The files under a directory whose names end in \<^verbatim>\<open>.sql\<close>, at any depth, each by the path
  that joins the names on the way to it to the path of the directory.
\<close>

fun sql_files_under :: "path \<Rightarrow> (string \<times> node) list \<Rightarrow> path list" where
  "sql_files_under dir [] = []"
| "sql_files_under dir ((x, File) # entries) =
     (if endswith x ''.sql'' then [os_path_join dir x] else []) @ sql_files_under dir entries"
| "sql_files_under dir ((x, Dir sub) # entries) =
     sql_files_under (os_path_join dir x) sub @ sql_files_under dir entries"




text \<open>
  What the glob yields for the directories below a directory: for each of them, in the order
  of \<^verbatim>\<open>_rlistdir\<close>, its path joined to the names that \<^verbatim>\<open>_glob1\<close> finds in it.
\<close>

definition glob_below :: "path \<Rightarrow> (string \<times> node) list \<Rightarrow> path list" where
  "glob_below d es =
     concat (map (\<lambda>(dd, s). map (os_path_join dd) (glob1 s))
       (map (\<lambda>(rel, s). (os_path_join d rel, s)) (rlistdir es)))"


subsection \<open>A concrete run\<close>

text \<open>
  A small world on which the statements below are evaluated: one preset, one rule, a
  directory \<^verbatim>\<open>migrations\<close> with two SQL files, a file \<^verbatim>\<open>bad.sql\<close> with one issue and a
  file in the home directory. An issue is its message.
\<close>

definition demo_config :: config where
  "demo_config = \<lparr> rules = [(''AddColumnDisallowConstraints'', [])], reporter = ''plain'',
                   plugins = [''plugins/''] \<rparr>"

definition demo_registry :: registry where
  "demo_registry =
     [(''AddColumnDisallowConstraints'',
       \<lparr> meta_name = ''AddColumnDisallowConstraints'',
         meta_description = ''Prevent adding a column with certain constraints'',
         meta_help = ''Split the constraint into its own statement.'' \<rparr>)]"

definition demo_env :: "string env" where
  "demo_env =
     \<lparr> PRESETS = [(''postgres'',
                   \<lparr> preset_description = Some ''A sane set of defaults'',
                     preset_config = ''{'' @ [CHR 0x0A] @ ''}'' \<rparr>)],
       discover_config_location = None,
       load_config = (\<lambda>cf p. Inr demo_config),
       load_rules = (\<lambda>ps. Inr demo_registry),
       apply_file_config = (\<lambda>c f. if f = ''migrations/002.sql'' then c \<lparr> rules := [] \<rparr> else c),
       check_file = (\<lambda>c f. if f = ''bad.sql'' \<and> rules c \<noteq> [] then [''bad.sql:1:1 error''] else []),
       expanduser = (\<lambda>p. if p = ''~/a.sql'' then ''/home/u/a.sql'' else p),
       path_exists = (\<lambda>p. p \<in> set [''bad.sql'', ''good.sql'', ''migrations'', ''~/a.sql'',
                                      ''/home/u/a.sql'']),
       isdir = (\<lambda>p. p = ''migrations''),
       scandir = (\<lambda>p. if p = ''migrations''
                         then [(''001.sql'', File), (''002.sql'', File), (''README'', File),
                               (''old'', Dir [(''000.sql'', File)])]
                         else []),
       iglob_other = (\<lambda>pat. []) \<rparr>"

text \<open>
  The same world with a directory \<^verbatim>\<open>d\<close> that is not plain: it has a hidden SQL file, a
  directory whose name ends in \<^verbatim>\<open>.sql\<close>, and an SQL file in a hidden directory.
\<close>

definition dotted_env :: "string env" where
  "dotted_env =
     demo_env \<lparr> scandir := (\<lambda>p. if p = ''d''
                                then [(''.hidden.sql'', File), (''a.sql'', File),
                                      (''dir.sql'', Dir []),
                                      (''.git'', Dir [(''b.sql'', File)])]
                                else []) \<rparr>"

definition no_args :: args where
  "no_args = \<lparr> arg_verbose = False, arg_PATHS = [], arg_preset = None, arg_list_presets = False,
               arg_config = None, arg_list_rules = False, arg_show_rule = None \<rparr>"

definition lint_args :: args where
  "lint_args = no_args \<lparr> arg_PATHS := [''bad.sql'', ''migrations''] \<rparr>"

definition clean_args :: args where
  "clean_args = no_args \<lparr> arg_PATHS := [''good.sql''] \<rparr>"

definition home_args :: args where
  "home_args = no_args \<lparr> arg_PATHS := [''~/a.sql''] \<rparr>"

definition missing_config_args :: args where
  "missing_config_args = lint_args \<lparr> arg_config := Some ''missing.yml'' \<rparr>"

definition presets_args :: args where
  "presets_args = no_args \<lparr> arg_list_presets := True, arg_config := Some ''missing.yml'',
                             arg_PATHS := [''missing.sql''] \<rparr>"

definition presets_only_args :: args where
  "presets_only_args = no_args \<lparr> arg_list_presets := True, arg_verbose := True \<rparr>"

definition missing_path_args :: args where
  "missing_path_args = no_args \<lparr> arg_PATHS := [''good.sql'', ''missing.sql'', ''bad.sql''] \<rparr>"

definition rules_missing_path_args :: args where
  "rules_missing_path_args = no_args \<lparr> arg_list_rules := True, arg_PATHS := [''missing.sql''] \<rparr>"

definition show_unknown_args :: args where
  "show_unknown_args = no_args \<lparr> arg_show_rule := Some ''NoSuchRule'' \<rparr>"

definition rules_show_unknown_args :: args where
  "rules_show_unknown_args = no_args \<lparr> arg_list_rules := True, arg_show_rule := Some ''NoSuchRule'' \<rparr>"

section \<open>Properties\<close>

subsection \<open>Traces and results of the parts\<close>

lemma io_bind_Inl [simp]: "io_bind (t, Inl e) f = (t, Inl e)"
  by (simp add: io_bind_def)

lemma io_bind_Inr [simp]: "io_bind (t, Inr x) f = (t @ fst (f x), snd (f x))"
  by (simp add: io_bind_def)

lemma never_after_append:
  "never_after P Q (xs @ ys) \<longleftrightarrow>
     never_after P Q xs \<and> never_after P Q ys \<and> (list_ex Q xs \<longrightarrow> \<not> list_ex P ys)"
  by (induction xs) auto

lemma never_after_absent: "\<not> list_ex P xs \<Longrightarrow> never_after P Q xs"
  by (induction xs) auto

lemma filter_absent: "\<not> list_ex P t \<Longrightarrow> filter P t = []"
  by (simp add: list_ex_iff filter_empty_conv)

lemma absent_by_kind:
  "list_all Q t \<Longrightarrow> (\<And>x. Q x \<Longrightarrow> \<not> P x) \<Longrightarrow> \<not> list_ex P t"
  by (auto simp: list_all_iff list_ex_iff)

lemma lint_loop_snd:
  "snd (lint_loop env b fs acc) = acc @ concat (map (\<lambda>f. snd (lint_file env b f)) fs)"
  by (induction fs arbitrary: acc) (simp_all add: Let_def)

lemma lint_loop_fst:
  "fst (lint_loop env b fs acc) = concat (map (\<lambda>f. fst (lint_file env b f)) fs)"
  by (induction fs arbitrary: acc) (simp_all add: Let_def)

lemma lint_all_issues:
  "snd (lint_all env b fs) = concat (map (\<lambda>f. check_file env (apply_file_config env b f) f) fs)"
  by (simp add: lint_all_def lint_loop_snd lint_file_def Let_def)

lemma lint_all_trace:
  "fst (lint_all env b fs) =
     concat (map (\<lambda>f. [Apply_file_config b f, Check_file (apply_file_config env b f) f]) fs)"
  by (simp add: lint_all_def lint_loop_fst lint_file_def Let_def)

lemma lint_all_events: "list_all is_lint_event (fst (lint_all env b fs))"
  by (induction fs) (simp_all add: lint_all_trace)

lemma collect_loop_events: "list_all is_fs_event (fst (collect_loop env ps fs))"
  by (induction ps arbitrary: fs) (simp_all add: Let_def io_ret_def io_after_def)

lemma collect_files_events: "list_all is_fs_event (fst (collect_files env ps))"
  by (simp add: collect_files_def collect_loop_events)

lemma list_presets_events: "list_all is_print (fst (list_presets env))"
  by (simp add: list_presets_def list_all_iff split_def)

lemma list_presets_result: "snd (list_presets env) = Inr ()"
  by (simp add: list_presets_def)

lemma list_rules_events: "list_all is_listing_event (fst (list_rules reg))"
  by (simp add: list_rules_def Let_def list_all_iff image_iff)

lemma show_rule_events: "list_all is_listing_event (fst (show_rule reg name))"
  by (simp add: show_rule_def split: sum.splits exn.splits)

lemma print_is_listing: "is_print ev \<Longrightarrow> is_listing_event ev"
  by (cases ev) simp_all

lemma list_presets_listing: "list_all is_listing_event (fst (list_presets env))"
  using list_presets_events [of env] by (auto simp: list_all_iff print_is_listing)

lemma listing_kind:
  "is_listing_event ev \<Longrightarrow> \<not> is_load_config ev"
  "is_listing_event ev \<Longrightarrow> \<not> is_load_rules ev"
  "is_listing_event ev \<Longrightarrow> \<not> is_lint_event ev"
  "is_listing_event ev \<Longrightarrow> \<not> is_report ev"
  by (cases ev; simp)+

lemma fs_kind:
  "is_fs_event ev \<Longrightarrow> \<not> is_load_config ev"
  "is_fs_event ev \<Longrightarrow> \<not> is_load_rules ev"
  "is_fs_event ev \<Longrightarrow> \<not> is_lint_event ev"
  "is_fs_event ev \<Longrightarrow> \<not> is_report ev"
  "is_fs_event ev \<Longrightarrow> \<not> is_print ev"
  by (cases ev; simp)+

lemma lint_kind:
  "is_lint_event ev \<Longrightarrow> \<not> is_load_config ev"
  "is_lint_event ev \<Longrightarrow> \<not> is_load_rules ev"
  "is_lint_event ev \<Longrightarrow> \<not> is_report ev"
  by (cases ev; simp)+

lemmas listing_absent =
  absent_by_kind [OF list_presets_listing] absent_by_kind [OF list_rules_events]
  absent_by_kind [OF show_rule_events]

lemma no_load_rules [simp]:
  "\<not> list_ex is_load_rules (fst (list_presets env))"
  "\<not> list_ex is_load_rules (fst (list_rules reg))"
  "\<not> list_ex is_load_rules (fst (show_rule reg name))"
  "\<not> list_ex is_load_rules (fst (collect_files env ps))"
  "\<not> list_ex is_load_rules (fst (lint_all env b fs))"
  by (simp_all add: listing_absent listing_kind absent_by_kind [OF collect_files_events] fs_kind
        absent_by_kind [OF lint_all_events] lint_kind)

lemma no_load_config [simp]:
  "\<not> list_ex is_load_config (fst (list_presets env))"
  "\<not> list_ex is_load_config (fst (list_rules reg))"
  "\<not> list_ex is_load_config (fst (show_rule reg name))"
  "\<not> list_ex is_load_config (fst (collect_files env ps))"
  "\<not> list_ex is_load_config (fst (lint_all env b fs))"
  by (simp_all add: listing_absent listing_kind absent_by_kind [OF collect_files_events] fs_kind
        absent_by_kind [OF lint_all_events] lint_kind)

lemma no_lint_event [simp]:
  "\<not> list_ex is_lint_event (fst (list_presets env))"
  "\<not> list_ex is_lint_event (fst (list_rules reg))"
  "\<not> list_ex is_lint_event (fst (show_rule reg name))"
  "\<not> list_ex is_lint_event (fst (collect_files env ps))"
  by (simp_all add: listing_absent listing_kind absent_by_kind [OF collect_files_events] fs_kind)

lemma no_report [simp]:
  "\<not> list_ex is_report (fst (list_presets env))"
  "\<not> list_ex is_report (fst (list_rules reg))"
  "\<not> list_ex is_report (fst (show_rule reg name))"
  "\<not> list_ex is_report (fst (collect_files env ps))"
  "\<not> list_ex is_report (fst (lint_all env b fs))"
  by (simp_all add: listing_absent listing_kind absent_by_kind [OF collect_files_events] fs_kind
        absent_by_kind [OF lint_all_events] lint_kind)

lemma find_config_file_eq:
  "find_config_file env args =
     (if truthy (arg_config args) then [] else [Discover_config_location],
      Inr (config_file_of env args))"
  by (simp add: find_config_file_def config_file_of_def io_ret_def io_call_def)

lemma check_config_file_eq:
  "check_config_file env cf =
     (if truthy cf then [Os_path_exists (the cf)] else [],
      if truthy cf \<and> \<not> path_exists env (the cf)
      then Inl (SystemExit_msg (the cf @ '': no such file or directory'')) else Inr ())"
  by (simp add: check_config_file_def io_ret_def io_call_def)

lemma main_unfold:
  "main env args =
     io_after (verbose_events args)
       (if arg_list_presets args then list_presets env
        else
          io_bind (find_config_file env args) (\<lambda>config_file.
          io_bind (check_config_file env config_file) (\<lambda>_.
          io_bind (io_call (Load_config config_file (arg_preset args))
                     (load_config env config_file (arg_preset args))) (\<lambda>base_config.
          io_bind (io_call (Load_rules (plugins base_config))
                     (load_rules env (plugins base_config))) (\<lambda>reg.
          if arg_list_rules args then list_rules reg
          else if truthy (arg_show_rule args) then show_rule reg (the (arg_show_rule args))
          else
            io_bind (collect_files env (arg_PATHS args)) (\<lambda>files.
            io_bind (io_total (lint_all env base_config files)) (\<lambda>issues.
            io_bind (io_call (Reporter_report (reporter base_config) issues) (Inr ())) (\<lambda>_.
            if issues \<noteq> [] then io_raise (SystemExit_code 1) else io_ret ()))))))))"
  by (simp add: main_def verbose_events_def io_call_def io_ret_def io_after_def Let_def)

lemma main_list_presets:
  "arg_list_presets args \<Longrightarrow>
     main env args = (verbose_events args @ fst (list_presets env), Inr ())"
  by (simp add: main_unfold io_after_def list_presets_result)

lemma main_missing_config:
  assumes "\<not> arg_list_presets args"
    and "truthy (config_file_of env args)"
    and "\<not> path_exists env (the (config_file_of env args))"
  shows "main env args =
     (config_events env args,
      Inl (SystemExit_msg (the (config_file_of env args) @ '': no such file or directory'')))"
  using assms
  by (simp add: main_unfold io_after_def config_events_def find_config_file_eq
      check_config_file_eq)

text \<open>The run once the rules are loaded.\<close>

lemma main_loaded:
  assumes "\<not> arg_list_presets args"
    and "truthy (config_file_of env args) \<longrightarrow> path_exists env (the (config_file_of env args))"
    and "load_config env (config_file_of env args) (arg_preset args) = Inr base_config"
    and "load_rules env (plugins base_config) = Inr reg"
  shows "main env args =
     io_after (config_events env args @
               [Load_config (config_file_of env args) (arg_preset args),
                Load_rules (plugins base_config)])
       (if arg_list_rules args then list_rules reg
        else if truthy (arg_show_rule args) then show_rule reg (the (arg_show_rule args))
        else
          io_bind (collect_files env (arg_PATHS args)) (\<lambda>files.
          io_bind (io_total (lint_all env base_config files)) (\<lambda>issues.
          io_bind (io_call (Reporter_report (reporter base_config) issues) (Inr ())) (\<lambda>_.
          if issues \<noteq> [] then io_raise (SystemExit_code 1) else io_ret ()))))"
  using assms
  by (simp add: main_unfold io_after_def config_events_def find_config_file_eq
      check_config_file_eq io_call_def)

lemma main_linted:
  assumes "\<not> arg_list_presets args"
    and "truthy (config_file_of env args) \<longrightarrow> path_exists env (the (config_file_of env args))"
    and "load_config env (config_file_of env args) (arg_preset args) = Inr base_config"
    and "load_rules env (plugins base_config) = Inr reg"
    and "\<not> arg_list_rules args"
    and "\<not> truthy (arg_show_rule args)"
    and "snd (collect_files env (arg_PATHS args)) = Inr files"
  shows "main env args =
     (config_events env args @
      [Load_config (config_file_of env args) (arg_preset args), Load_rules (plugins base_config)] @
      fst (collect_files env (arg_PATHS args)) @ fst (lint_all env base_config files) @
      [Reporter_report (reporter base_config) (snd (lint_all env base_config files))],
      if snd (lint_all env base_config files) \<noteq> [] then Inl (SystemExit_code 1) else Inr ())"
proof -
  obtain tc where c: "collect_files env (arg_PATHS args) = (tc, Inr files)"
    using assms(7) by (cases "collect_files env (arg_PATHS args)") simp
  show ?thesis
    by (simp add: main_loaded [OF assms(1-4)] assms(5,6) c io_after_def io_total_def io_call_def
        io_raise_def io_ret_def)
qed

lemma lint_all_config:
  "Apply_file_config c f \<in> set (fst (lint_all env b fs)) \<Longrightarrow> c = b"
  "Check_file c f \<in> set (fst (lint_all env b fs)) \<Longrightarrow> c = apply_file_config env b f"
  by (auto simp: lint_all_trace)

lemma not_lint_mem:
  "\<not> list_ex is_lint_event t \<Longrightarrow> Apply_file_config c f \<notin> set t"
  "\<not> list_ex is_lint_event t \<Longrightarrow> Check_file c f \<notin> set t"
  by (auto simp: list_ex_iff)


lemma collect_loop_missing:
  "find (\<lambda>p. \<not> path_exists env (expanduser env p)) ps = Some q \<Longrightarrow>
     snd (collect_loop env ps fs) =
       Inl (SystemExit_msg (expanduser env q @ '': no such file or directory'')) \<and>
     fst (collect_loop env ps fs) \<noteq> [] \<and>
     last (fst (collect_loop env ps fs)) = Os_path_exists (expanduser env q)"
proof (induction ps arbitrary: fs)
  case Nil
  then show ?case by simp
next
  case (Cons p ps)
  show ?case
  proof (cases "path_exists env (expanduser env p)")
    case False
    with Cons.prems have "q = p" by simp
    with False show ?thesis by (simp add: Let_def)
  next
    case True
    with Cons.prems have "find (\<lambda>p. \<not> path_exists env (expanduser env p)) ps = Some q"
      by simp
    from Cons.IH [OF this] True show ?thesis
      by (simp add: Let_def io_after_def)
  qed
qed

lemma not_load_rules_mem: "\<not> list_ex is_load_rules t \<Longrightarrow> Load_rules ps \<notin> set t"
  by (auto simp: list_ex_iff)

lemma load_rules_notin [simp]:
  "Load_rules ps \<notin> set (fst (list_presets env))"
  "Load_rules ps \<notin> set (fst (list_rules reg))"
  "Load_rules ps \<notin> set (fst (show_rule reg name))"
  "Load_rules ps \<notin> set (fst (collect_files env paths))"
  "Load_rules ps \<notin> set (fst (lint_all env b fs))"
  by (simp_all add: not_load_rules_mem)

lemma show_rule_unknown:
  "map_of reg name = None \<Longrightarrow>
     show_rule reg name =
       ([Registry_get_meta name],
        Inl (SystemExit_msg (Style_BRIGHT @ ''Unknown rule:'' @ Style_RESET_ALL @ '' '' @ name)))"
  by (simp add: show_rule_def get_meta_def)

lemma config_events_absent [simp]:
  "\<not> list_ex is_lint_event (config_events env args)"
  "\<not> list_ex is_report (config_events env args)"
  "\<not> list_ex is_print (config_events env args)"
  by (simp_all add: config_events_def verbose_events_def find_config_file_eq check_config_file_eq)

lemma not_report_mem: "\<not> list_ex is_report t \<Longrightarrow> Reporter_report r is \<notin> set t"
  by (auto simp: list_ex_iff)

lemma lint_notin [simp]:
  "Apply_file_config c f \<notin> set (fst (list_presets env))"
  "Apply_file_config c f \<notin> set (fst (list_rules reg))"
  "Apply_file_config c f \<notin> set (fst (show_rule reg name))"
  "Apply_file_config c f \<notin> set (fst (collect_files env paths))"
  "Check_file c f \<notin> set (fst (list_presets env))"
  "Check_file c f \<notin> set (fst (list_rules reg))"
  "Check_file c f \<notin> set (fst (show_rule reg name))"
  "Check_file c f \<notin> set (fst (collect_files env paths))"
  by (simp_all add: not_lint_mem)

lemma report_notin [simp]:
  "Reporter_report r is \<notin> set (fst (list_presets env))"
  "Reporter_report r is \<notin> set (fst (list_rules reg))"
  "Reporter_report r is \<notin> set (fst (show_rule reg name))"
  "Reporter_report r is \<notin> set (fst (collect_files env paths))"
  "Reporter_report r is \<notin> set (fst (lint_all env b fs))"
  by (simp_all add: not_report_mem)

lemma two_prints:
  "length (filter is_print (concat (map (\<lambda>(name, preset). [Print (a name preset), Print (b name preset)]) ps)))
     = 2 * length ps"
  by (induction ps) (auto simp: split_def)

subsection \<open>The glob on a tree\<close>







lemma glob_below_Nil [simp]: "glob_below d [] = []"
  by (simp add: glob_below_def)

lemma glob_below_File [simp]: "glob_below d ((x, File) # es) = glob_below d es"
  by (simp add: glob_below_def)


lemma glob1_simps [simp]:
  "glob1 [] = []"
  "glob1 ((x, n) # es) = (if \<not> ishidden x \<and> endswith x ''.sql'' then [x] else []) @ glob1 es"
  by (simp_all add: glob1_def)










subsection \<open>The loop on the store\<close>

lemma lint_file_eq:
  "lint_file env b f =
     ([Apply_file_config b f, Check_file (apply_file_config env b f) f],
      check_file env (apply_file_config env b f) f)"
  by (simp add: lint_file_def Let_def)

lemma lint_file_obj_eq:
  "lint_file_obj env st b f =
     (st @ [apply_file_config env (st ! b) f],
      fst (lint_file env (st ! b) f), snd (lint_file env (st ! b) f))"
  by (simp add: lint_file_obj_def apply_file_config_obj_def lint_file_eq)

lemma lint_loop_obj_frame:
  "b < length st \<Longrightarrow>
     take (length st) (fst (lint_loop_obj env st b fs acc)) = st \<and>
     length st \<le> length (fst (lint_loop_obj env st b fs acc)) \<and>
     fst (snd (lint_loop_obj env st b fs acc)) = fst (lint_loop env (st ! b) fs acc) \<and>
     snd (snd (lint_loop_obj env st b fs acc)) = snd (lint_loop env (st ! b) fs acc)"
proof (induction fs arbitrary: st acc)
  case Nil
  then show ?case by simp
next
  case (Cons f fs)
  let ?st = "st @ [apply_file_config env (st ! b) f]"
  let ?acc = "acc @ snd (lint_file env (st ! b) f)"
  from Cons.prems have b: "b < length ?st" "?st ! b = st ! b"
    by (simp_all add: nth_append)
  note ih = Cons.IH [OF b(1), of ?acc, unfolded b(2)]
  from ih have "take (length st) (take (length ?st) (fst (lint_loop_obj env ?st b fs ?acc))) = take (length st) ?st"
    by simp
  then have t: "take (length st) (fst (lint_loop_obj env ?st b fs ?acc)) = st"
    by (simp add: min_def)
  from ih t show ?case
    by (simp add: lint_file_obj_eq split_def Let_def)
qed

lemma lint_all_obj_frame:
  assumes "b < length st"
  shows "take (length st) (fst (lint_all_obj env st b fs)) = st"
    and "fst (lint_all_obj env st b fs) ! b = st ! b"
    and "fst (snd (lint_all_obj env st b fs)) = fst (lint_all env (st ! b) fs)"
    and "snd (snd (lint_all_obj env st b fs)) = snd (lint_all env (st ! b) fs)"
proof -
  note f = lint_loop_obj_frame [OF assms, of env fs "[]", folded lint_all_obj_def lint_all_def]
  from f show "take (length st) (fst (lint_all_obj env st b fs)) = st"
    and "fst (snd (lint_all_obj env st b fs)) = fst (lint_all env (st ! b) fs)"
    and "snd (snd (lint_all_obj env st b fs)) = snd (lint_all env (st ! b) fs)"
    by simp_all
  from f assms have "take (length st) (fst (lint_all_obj env st b fs)) ! b = st ! b"
    by simp
  with assms show "fst (lint_all_obj env st b fs) ! b = st ! b"
    by simp
qed

lemma main_report:
  "Reporter_report r issues \<in> set (fst (main env args)) \<Longrightarrow>
     \<exists>base files. load_config env (config_file_of env args) (arg_preset args) = Inr base \<and>
       snd (collect_files env (arg_PATHS args)) = Inr files \<and> r = reporter base \<and>
       issues = concat (map (\<lambda>f. check_file env (apply_file_config env base f) f) files)"
  by (auto simp: main_unfold io_after_def verbose_events_def find_config_file_eq check_config_file_eq
      io_call_def io_ret_def io_raise_def io_total_def io_bind_def lint_all_issues
      split: sum.splits if_splits)

subsection \<open>The concrete run, evaluated\<close>

lemmas run_defs =
  main_def io_bind_def io_call_def io_ret_def io_raise_def io_total_def io_after_def
  find_config_file_def check_config_file_def config_file_of_def collect_files_def lint_all_def
  lint_file_def list_presets_def list_rules_def show_rule_def get_meta_def registry_all_def
  os_path_join_def collected_for_def verbose_events_def config_events_def Let_def
  iglob_def os_path_split_def rstrip_sep_def has_magic_def ishidden_def endswith_def glob1_def

lemmas demo_defs =
  demo_env_def demo_config_def demo_registry_def no_args_def lint_args_def clean_args_def
  home_args_def missing_config_args_def presets_args_def presets_only_args_def
  missing_path_args_def rules_missing_path_args_def show_unknown_args_def
  rules_show_unknown_args_def

lemma demo_setup:
  "config_file_of demo_env lint_args = None"
  "config_file_of demo_env clean_args = None"
  "config_file_of demo_env missing_path_args = None"
  "config_file_of demo_env show_unknown_args = None"
  "load_config demo_env cf p = Inr demo_config"
  "load_rules demo_env ps = Inr demo_registry"
  by (simp_all add: config_file_of_def demo_defs)

lemma demo_collect:
  "snd (collect_files demo_env (arg_PATHS lint_args)) =
     Inr [''bad.sql'', ''migrations/001.sql'', ''migrations/002.sql'', ''migrations/old/000.sql'']"
  "snd (collect_files demo_env (arg_PATHS clean_args)) = Inr [''good.sql'']"
  by (simp_all add: run_defs demo_defs)


lemma demo_trace_no_args:
  "fst (main demo_env no_args) =
     [Discover_config_location, Load_config None None, Load_rules [''plugins/''],
      Reporter_report ''plain'' []]"
  by (simp add: run_defs demo_defs)

lemma demo_trace_lint_kinds:
  "list_ex is_lint_event (fst (main demo_env lint_args))"
  "list_ex is_load_rules (fst (main demo_env lint_args))"
  by (simp_all add: run_defs demo_defs)

subsection \<open>The exit status\<close>

text \<open>
  C1: a run reaches linting when \<^verbatim>\<open>--list-presets\<close> is absent, the configuration file, if
  there is one, exists, the configuration and the rules load, neither \<^verbatim>\<open>--list-rules\<close> nor
  \<^verbatim>\<open>--show-rule\<close> is given and every path is collected. The process then ends with status 1
  when the issues of all collected files together are not empty and with status 0 when they
  are, for any type of issue (so whatever their severity), and this list of issues is what
  the reporter was given last.
\<close>

theorem exit_status_reflects_issues:
  assumes "\<not> arg_list_presets args"
    and "truthy (config_file_of env args) \<longrightarrow> path_exists env (the (config_file_of env args))"
    and "load_config env (config_file_of env args) (arg_preset args) = Inr base_config"
    and "load_rules env (plugins base_config) = Inr reg"
    and "\<not> arg_list_rules args"
    and "\<not> truthy (arg_show_rule args)"
    and "snd (collect_files env (arg_PATHS args)) = Inr files"
  shows "exit_status (snd (main env args)) =
           (if concat (map (\<lambda>file_name. snd (lint_file env base_config file_name)) files) = []
            then 0 else 1)
         \<and> last (fst (main env args)) =
             Reporter_report (reporter base_config)
               (concat (map (\<lambda>file_name. snd (lint_file env base_config file_name)) files))"
  by (simp add: main_linted [OF assms] lint_all_def lint_loop_snd)

text \<open>
  The theorem on the concrete run: a file with an issue, and a file without.
\<close>

theorem exit_status_reflects_issues_witness:
  "exit_status (snd (main demo_env lint_args)) = 1
   \<and> exit_status (snd (main demo_env clean_args)) = 0"
proof -
  have h: "\<not> arg_list_presets lint_args"
    "truthy (config_file_of demo_env lint_args) \<longrightarrow>
       path_exists demo_env (the (config_file_of demo_env lint_args))"
    "load_config demo_env (config_file_of demo_env lint_args) (arg_preset lint_args) = Inr demo_config"
    "load_rules demo_env (plugins demo_config) = Inr demo_registry"
    "\<not> arg_list_rules lint_args"
    "\<not> truthy (arg_show_rule lint_args)"
    "snd (collect_files demo_env (arg_PATHS lint_args)) =
       Inr [''bad.sql'', ''migrations/001.sql'', ''migrations/002.sql'', ''migrations/old/000.sql'']"
    by (simp_all add: demo_setup demo_collect) (simp_all add: demo_defs)
  have i: "concat (map (\<lambda>file_name. snd (lint_file demo_env demo_config file_name))
             [''bad.sql'', ''migrations/001.sql'', ''migrations/002.sql'', ''migrations/old/000.sql'']) = [''bad.sql:1:1 error'']"
    by (simp add: lint_file_def Let_def demo_defs)
  have k: "\<not> arg_list_presets clean_args"
    "truthy (config_file_of demo_env clean_args) \<longrightarrow>
       path_exists demo_env (the (config_file_of demo_env clean_args))"
    "load_config demo_env (config_file_of demo_env clean_args) (arg_preset clean_args) = Inr demo_config"
    "load_rules demo_env (plugins demo_config) = Inr demo_registry"
    "\<not> arg_list_rules clean_args"
    "\<not> truthy (arg_show_rule clean_args)"
    "snd (collect_files demo_env (arg_PATHS clean_args)) = Inr [''good.sql'']"
    by (simp_all add: demo_setup demo_collect) (simp_all add: demo_defs)
  have j: "concat (map (\<lambda>file_name. snd (lint_file demo_env demo_config file_name))
             [''good.sql'']) = []"
    by (simp add: lint_file_def Let_def demo_defs)
  from exit_status_reflects_issues [OF h] exit_status_reflects_issues [OF k]
  show ?thesis
    unfolding i j by simp
qed

subsection \<open>The issues of a run\<close>

text \<open>
  C2: for every base configuration and every list of files, the issue list of the run is the
  concatenation, in the order of the files, of the issue lists that \<^verbatim>\<open>lint_file\<close> returns,
  one for each entry of the list, and \<^verbatim>\<open>lint_file\<close> is called once for each entry, in that
  order.
\<close>

theorem lint_all_concat:
  "snd (lint_all env base_config files) =
     concat (map (\<lambda>file_name. snd (lint_file env base_config file_name)) files)
   \<and> fst (lint_all env base_config files) =
     concat (map (\<lambda>file_name. fst (lint_file env base_config file_name)) files)"
  by (simp add: lint_all_def lint_loop_snd lint_loop_fst)

subsection \<open>A configuration file that does not exist\<close>

text \<open>
  C3, as stated, fails when \<^verbatim>\<open>--list-presets\<close> is given: the presets are printed and the
  process ends with status 0 although \<^verbatim>\<open>--config\<close> names a file that does not exist.
\<close>

theorem missing_config_list_presets_counterexample:
  "arg_config presets_args = Some ''missing.yml''
   \<and> \<not> path_exists demo_env ''missing.yml''
   \<and> exit_status (snd (main demo_env presets_args)) = 0"
  by (simp add: run_defs demo_defs)

text \<open>
  C3, amended: without \<^verbatim>\<open>--list-presets\<close>, a non-empty path given by \<^verbatim>\<open>--config\<close> that does
  not exist ends the process with status 1 right after the test for the file, so before the
  configuration or the rules are loaded and before any file is collected or linted. Without
  \<^verbatim>\<open>--list-presets\<close>, when no path is given and none is discovered, no file is tested and
  the configuration is loaded with no configuration file and the preset.
\<close>

theorem missing_config_exits_before_loading:
  "(\<not> arg_list_presets args \<and> arg_config args = Some cf \<and> cf \<noteq> [] \<and> \<not> path_exists env cf \<longrightarrow>
      main env args =
        (verbose_events args @ [Os_path_exists cf],
         Inl (SystemExit_msg (cf @ '': no such file or directory'')))
      \<and> exit_status (snd (main env args)) = 1)
   \<and> (\<not> arg_list_presets args \<and> \<not> truthy (arg_config args) \<and> discover_config_location env = None \<longrightarrow>
      (\<exists>rest. fst (main env args) =
         verbose_events args @
         [Discover_config_location, Load_config None (arg_preset args)] @ rest))"
proof (intro conjI impI)
  assume a: "\<not> arg_list_presets args \<and> arg_config args = Some cf \<and> cf \<noteq> [] \<and> \<not> path_exists env cf"
  then have c: "config_file_of env args = Some cf"
    by (simp add: config_file_of_def)
  from a c show m: "main env args =
        (verbose_events args @ [Os_path_exists cf],
         Inl (SystemExit_msg (cf @ '': no such file or directory'')))"
    by (simp add: main_missing_config config_events_def find_config_file_eq check_config_file_eq)
  show "exit_status (snd (main env args)) = 1"
    by (simp add: m)
next
  assume a: "\<not> arg_list_presets args \<and> \<not> truthy (arg_config args) \<and> discover_config_location env = None"
  then show "\<exists>rest. fst (main env args) =
         verbose_events args @
         [Discover_config_location, Load_config None (arg_preset args)] @ rest"
    by (simp add: main_unfold io_after_def find_config_file_eq check_config_file_eq
        config_file_of_def io_call_def io_bind_def split: sum.splits)
qed

theorem missing_config_exits_before_loading_witness:
  "main demo_env missing_config_args =
     ([Os_path_exists ''missing.yml''],
      Inl (SystemExit_msg ''missing.yml: no such file or directory''))
   \<and> exit_status (snd (main demo_env missing_config_args)) = 1
   \<and> take 2 (fst (main demo_env lint_args)) = [Discover_config_location, Load_config None None]"
proof -
  note t = missing_config_exits_before_loading
  have "\<not> arg_list_presets missing_config_args \<and> arg_config missing_config_args = Some ''missing.yml''
      \<and> ''missing.yml'' \<noteq> [] \<and> \<not> path_exists demo_env ''missing.yml''"
    by (simp add: demo_defs)
  with t [of missing_config_args "''missing.yml''" demo_env]
  have a: "main demo_env missing_config_args =
     (verbose_events missing_config_args @ [Os_path_exists ''missing.yml''],
      Inl (SystemExit_msg (''missing.yml'' @ '': no such file or directory'')))
     \<and> exit_status (snd (main demo_env missing_config_args)) = 1"
    by blast
  have "\<not> arg_list_presets lint_args \<and> \<not> truthy (arg_config lint_args)
      \<and> discover_config_location demo_env = None"
    by (simp add: demo_defs)
  with t [of lint_args "[]" demo_env]
  obtain rest where "fst (main demo_env lint_args) =
      verbose_events lint_args @
      [Discover_config_location, Load_config None (arg_preset lint_args)] @ rest"
    by blast
  then have b: "take 2 (fst (main demo_env lint_args)) = [Discover_config_location, Load_config None None]"
    by (simp add: verbose_events_def demo_defs)
  from a b show ?thesis
    by (simp add: verbose_events_def demo_defs)
qed

subsection \<open>The order of resolving the configuration and loading the rules\<close>

text \<open>
  C4, as stated, fails: in a run with no option and no path the configuration is loaded
  second and the rules third, so the rules are loaded after the configuration.
\<close>

theorem registry_loaded_after_config_counterexample:
  "fst (main demo_env no_args) =
     [Discover_config_location, Load_config None None, Load_rules [''plugins/''],
      Reporter_report ''plain'' []]
   \<and> \<not> never_after is_load_rules is_load_config (fst (main demo_env no_args))"
  by (simp add: demo_trace_no_args)

text \<open>
  C4, amended: in every run the base configuration is resolved before the rules are loaded
  (no configuration is loaded after the rules, the rules are loaded only after a
  configuration was, and they are loaded from the plugins of that configuration), and both
  come before the files are processed.
\<close>

theorem config_resolved_before_registry_loaded:
  "never_after is_load_config is_load_rules (fst (main env args))
   \<and> never_after is_load_rules is_lint_event (fst (main env args))
   \<and> (list_ex is_load_rules (fst (main env args)) \<longrightarrow> list_ex is_load_config (fst (main env args)))
   \<and> (list_ex is_lint_event (fst (main env args)) \<longrightarrow> list_ex is_load_rules (fst (main env args)))
   \<and> (\<forall>ps. Load_rules ps \<in> set (fst (main env args)) \<longrightarrow>
        (\<exists>base_config. load_config env (config_file_of env args) (arg_preset args) = Inr base_config
           \<and> ps = plugins base_config))"
  apply (simp add: main_unfold io_after_def verbose_events_def find_config_file_eq check_config_file_eq
      io_call_def io_ret_def io_raise_def io_total_def io_bind_def never_after_append filter_absent never_after_absent
      split: sum.splits)
  done

theorem config_resolved_before_registry_loaded_witness:
  "list_ex is_lint_event (fst (main demo_env lint_args))
   \<and> list_ex is_load_rules (fst (main demo_env lint_args))
   \<and> list_ex is_load_config (fst (main demo_env lint_args))
   \<and> never_after is_load_config is_load_rules (fst (main demo_env lint_args))
   \<and> never_after is_load_rules is_lint_event (fst (main demo_env lint_args))"
  using config_resolved_before_registry_loaded [of demo_env lint_args] demo_trace_lint_kinds
  by blast

subsection \<open>The rules are loaded once, before linting\<close>

text \<open>
  C5, as stated, fails for a run that ends before the rules are loaded: with
  \<^verbatim>\<open>--list-presets\<close> the rules are never loaded.
\<close>

theorem registry_never_loaded_counterexample:
  "arg_list_presets presets_only_args
   \<and> length (filter is_load_rules (fst (main demo_env presets_only_args))) = 0"
  by (simp add: run_defs demo_defs)

text \<open>
  C5, amended: in every run the rules are loaded at most once and never after a file has
  been linted, and in every run that lints a file they are loaded exactly once, so before
  the first file is linted.
\<close>

theorem registry_loaded_once_before_linting:
  "length (filter is_load_rules (fst (main env args))) \<le> 1
   \<and> never_after is_load_rules is_lint_event (fst (main env args))
   \<and> (list_ex is_lint_event (fst (main env args)) \<longrightarrow>
        length (filter is_load_rules (fst (main env args))) = 1)"
  by (simp add: main_unfold io_after_def verbose_events_def find_config_file_eq check_config_file_eq
      io_call_def io_ret_def io_raise_def io_total_def io_bind_def never_after_append filter_absent never_after_absent
      split: sum.splits)


theorem registry_loaded_once_before_linting_witness:
  "list_ex is_lint_event (fst (main demo_env lint_args))
   \<and> length (filter is_load_rules (fst (main demo_env lint_args))) = 1
   \<and> never_after is_load_rules is_lint_event (fst (main demo_env lint_args))"
  using registry_loaded_once_before_linting [of demo_env lint_args] demo_trace_lint_kinds
  by blast

subsection \<open>A path that does not exist\<close>

text \<open>
  C6, as stated, fails for a run that does not get to collecting the files: with
  \<^verbatim>\<open>--list-rules\<close> the rules are printed and the process ends with status 0 although a path
  does not exist.
\<close>

theorem missing_path_list_rules_counterexample:
  "arg_PATHS rules_missing_path_args = [''missing.sql'']
   \<and> \<not> path_exists demo_env (expanduser demo_env ''missing.sql'')
   \<and> exit_status (snd (main demo_env rules_missing_path_args)) = 0"
  by (simp add: run_defs demo_defs)

text \<open>
  C6, amended: in a run that gets to collecting the files (no \<^verbatim>\<open>--list-presets\<close>, the
  configuration file, if any, exists, the configuration and the rules load, no
  \<^verbatim>\<open>--list-rules\<close> and no \<^verbatim>\<open>--show-rule\<close>), if a path does not exist after the expansion
  of the home directory, the process ends with status 1 and the message for such a path, the
  last call it made is the test of that path, and no file is linted and nothing reported.
\<close>

theorem missing_path_exits_during_collection:
  assumes "\<not> arg_list_presets args"
    and "truthy (config_file_of env args) \<longrightarrow> path_exists env (the (config_file_of env args))"
    and "load_config env (config_file_of env args) (arg_preset args) = Inr base_config"
    and "load_rules env (plugins base_config) = Inr reg"
    and "\<not> arg_list_rules args"
    and "\<not> truthy (arg_show_rule args)"
    and "\<exists>p\<in>set (arg_PATHS args). \<not> path_exists env (expanduser env p)"
  shows "(\<exists>q\<in>set (arg_PATHS args). \<not> path_exists env (expanduser env q) \<and>
            snd (main env args) =
              Inl (SystemExit_msg (expanduser env q @ '': no such file or directory'')) \<and>
            last (fst (main env args)) = Os_path_exists (expanduser env q))
         \<and> exit_status (snd (main env args)) = 1
         \<and> \<not> list_ex is_lint_event (fst (main env args))
         \<and> \<not> list_ex is_report (fst (main env args))"
proof -
  let ?missing = "\<lambda>p. \<not> path_exists env (expanduser env p)"
  from assms(7) obtain q where q: "find ?missing (arg_PATHS args) = Some q"
    by (cases "find ?missing (arg_PATHS args)") (auto simp: find_None_iff)
  then have qs: "q \<in> set (arg_PATHS args)" "?missing q"
    by (auto simp: find_Some_iff)
  note c = collect_loop_missing [OF q, of "[]", folded collect_files_def]
  obtain tc where tc: "collect_files env (arg_PATHS args) =
      (tc, Inl (SystemExit_msg (expanduser env q @ '': no such file or directory'')))"
    using c by (cases "collect_files env (arg_PATHS args)") simp
  with c have t: "tc \<noteq> []" "last tc = Os_path_exists (expanduser env q)"
    by simp_all
  have nl: "\<not> list_ex is_lint_event tc" "\<not> list_ex is_report tc"
    using no_lint_event(4) [of env "arg_PATHS args"] no_report(4) [of env "arg_PATHS args"]
    by (simp_all add: tc)
  have m: "main env args =
      (config_events env args @
        [Load_config (config_file_of env args) (arg_preset args), Load_rules (plugins base_config)] @ tc,
       Inl (SystemExit_msg (expanduser env q @ '': no such file or directory'')))"
    by (simp add: main_loaded [OF assms(1-4)] assms(5,6) tc io_after_def)
  show ?thesis
    using qs t nl by (auto simp: m)
qed

theorem missing_path_exits_during_collection_witness:
  "snd (main demo_env missing_path_args) =
     Inl (SystemExit_msg ''missing.sql: no such file or directory'')
   \<and> exit_status (snd (main demo_env missing_path_args)) = 1
   \<and> \<not> list_ex is_lint_event (fst (main demo_env missing_path_args))
   \<and> \<not> list_ex is_report (fst (main demo_env missing_path_args))"
proof -
  have h: "\<not> arg_list_presets missing_path_args"
    "truthy (config_file_of demo_env missing_path_args) \<longrightarrow>
       path_exists demo_env (the (config_file_of demo_env missing_path_args))"
    "load_config demo_env (config_file_of demo_env missing_path_args) (arg_preset missing_path_args)
       = Inr demo_config"
    "load_rules demo_env (plugins demo_config) = Inr demo_registry"
    "\<not> arg_list_rules missing_path_args"
    "\<not> truthy (arg_show_rule missing_path_args)"
    "\<exists>p\<in>set (arg_PATHS missing_path_args). \<not> path_exists demo_env (expanduser demo_env p)"
    by (simp_all add: demo_setup) (simp_all add: demo_defs)
  from missing_path_exits_during_collection [OF h]
  obtain q where q: "q \<in> set (arg_PATHS missing_path_args)"
      "\<not> path_exists demo_env (expanduser demo_env q)"
      "snd (main demo_env missing_path_args) =
         Inl (SystemExit_msg (expanduser demo_env q @ '': no such file or directory''))"
    and r: "exit_status (snd (main demo_env missing_path_args)) = 1"
      "\<not> list_ex is_lint_event (fst (main demo_env missing_path_args))"
      "\<not> list_ex is_report (fst (main demo_env missing_path_args))"
    by blast
  from q(1,2) have "q = ''missing.sql''"
    by (auto simp: demo_defs split: if_splits)
  with q(3) r show ?thesis
    by (simp add: demo_defs)
qed

subsection \<open>The collected files\<close>


text \<open>
  The part of C7 on directories rests on what the glob does. In a directory that is not
  plain the glob and the files with names in \<^verbatim>\<open>.sql\<close> differ: the glob passes over a
  hidden file and over what is in a hidden directory, and it yields a directory whose name
  ends in \<^verbatim>\<open>.sql\<close>.
\<close>

lemma glob_in_dotted_directory:
  "iglob dotted_env (os_path_join ''d'' ''**/*.sql'') = [''d/a.sql'', ''d/dir.sql'']
   \<and> sql_files_under ''d'' (scandir dotted_env ''d'') =
       [''d/.hidden.sql'', ''d/a.sql'', ''d/.git/b.sql'']"
  by (simp add: run_defs demo_defs dotted_env_def)



subsection \<open>One base configuration for every file\<close>

text \<open>
  C8: \<^verbatim>\<open>lint_file\<close> derives the configuration of a file from the base configuration and
  lints the file with the derived one, whose issues it returns. In every run, every
  derivation is given the configuration that \<^verbatim>\<open>load_config\<close> returned, every file is linted
  with the configuration derived from it for that file, and what is reported, with the
  reporter of that same configuration, are the issues found with the derived configurations.
  On the store, where a callee could write to the base object: the loop leaves every object
  that existed before it, the base among them, as it was, and its trace and its issues are
  those of the loop on values, so that every derivation is given the same contents of the
  base.
\<close>

theorem every_file_config_derived_from_base:
  "lint_file env base_config file_name =
     ([Apply_file_config base_config file_name,
       Check_file (apply_file_config env base_config file_name) file_name],
      check_file env (apply_file_config env base_config file_name) file_name)
   \<and> (\<forall>c f. Apply_file_config c f \<in> set (fst (main env args)) \<longrightarrow>
        load_config env (config_file_of env args) (arg_preset args) = Inr c)
   \<and> (\<forall>c f. Check_file c f \<in> set (fst (main env args)) \<longrightarrow>
        (\<exists>base. load_config env (config_file_of env args) (arg_preset args) = Inr base \<and>
                c = apply_file_config env base f))
   \<and> (\<forall>r issues. Reporter_report r issues \<in> set (fst (main env args)) \<longrightarrow>
        (\<exists>base files. load_config env (config_file_of env args) (arg_preset args) = Inr base \<and>
           snd (collect_files env (arg_PATHS args)) = Inr files \<and> r = reporter base \<and>
           issues = concat (map (\<lambda>f. check_file env (apply_file_config env base f) f) files)))
   \<and> (base_ref < length st \<longrightarrow>
        take (length st) (fst (lint_all_obj env st base_ref files)) = st \<and>
        fst (lint_all_obj env st base_ref files) ! base_ref = st ! base_ref \<and>
        fst (snd (lint_all_obj env st base_ref files)) = fst (lint_all env (st ! base_ref) files) \<and>
        snd (snd (lint_all_obj env st base_ref files)) = snd (lint_all env (st ! base_ref) files))"
proof (intro conjI allI impI)
  show "lint_file env base_config file_name =
     ([Apply_file_config base_config file_name,
       Check_file (apply_file_config env base_config file_name) file_name],
      check_file env (apply_file_config env base_config file_name) file_name)"
    by (rule lint_file_eq)
next
  fix c f
  assume "Apply_file_config c f \<in> set (fst (main env args))"
  then show "load_config env (config_file_of env args) (arg_preset args) = Inr c"
    by (auto simp: main_unfold io_after_def verbose_events_def find_config_file_eq check_config_file_eq
      io_call_def io_ret_def io_raise_def io_total_def io_bind_def
      split: sum.splits if_splits dest: lint_all_config)
next
  fix c f
  assume "Check_file c f \<in> set (fst (main env args))"
  then show "\<exists>base. load_config env (config_file_of env args) (arg_preset args) = Inr base \<and>
                c = apply_file_config env base f"
    by (auto simp: main_unfold io_after_def verbose_events_def find_config_file_eq check_config_file_eq
      io_call_def io_ret_def io_raise_def io_total_def io_bind_def
      split: sum.splits if_splits dest: lint_all_config)
next
  fix r issues
  assume "Reporter_report r issues \<in> set (fst (main env args))"
  then show "\<exists>base files. load_config env (config_file_of env args) (arg_preset args) = Inr base \<and>
           snd (collect_files env (arg_PATHS args)) = Inr files \<and> r = reporter base \<and>
           issues = concat (map (\<lambda>f. check_file env (apply_file_config env base f) f) files)"
    by (rule main_report)
qed (simp_all add: lint_all_obj_frame)

theorem every_file_config_derived_from_base_witness:
  "Check_file (demo_config \<lparr> rules := [] \<rparr>) ''migrations/002.sql'' \<in> set (fst (main demo_env lint_args))
   \<and> load_config demo_env (config_file_of demo_env lint_args) (arg_preset lint_args) = Inr demo_config
   \<and> demo_config \<lparr> rules := [] \<rparr> = apply_file_config demo_env demo_config ''migrations/002.sql''
   \<and> fst (lint_all_obj demo_env [demo_config] 0 [''bad.sql'', ''migrations/002.sql'']) ! 0 = demo_config
   \<and> snd (snd (lint_all_obj demo_env [demo_config] 0 [''bad.sql'', ''migrations/002.sql''])) =
       [''bad.sql:1:1 error'']"
proof -
  note t = every_file_config_derived_from_base [of demo_env demo_config "''migrations/002.sql''"
      lint_args 0 "[demo_config]" "[''bad.sql'', ''migrations/002.sql'']"]
  have m: "Check_file (demo_config \<lparr> rules := [] \<rparr>) ''migrations/002.sql''
      \<in> set (fst (main demo_env lint_args))"
    by (simp add: run_defs demo_defs)
  with t obtain base where
    "load_config demo_env (config_file_of demo_env lint_args) (arg_preset lint_args) = Inr base"
    "demo_config \<lparr> rules := [] \<rparr> = apply_file_config demo_env base ''migrations/002.sql''"
    by blast
  then have a: "load_config demo_env (config_file_of demo_env lint_args) (arg_preset lint_args)
      = Inr demo_config"
    "demo_config \<lparr> rules := [] \<rparr> = apply_file_config demo_env demo_config ''migrations/002.sql''"
    by (simp_all add: demo_setup)
  have "(0::nat) < length [demo_config]"
    by simp
  with t have s: "fst (lint_all_obj demo_env [demo_config] 0 [''bad.sql'', ''migrations/002.sql'']) ! 0
      = [demo_config] ! 0"
    "snd (snd (lint_all_obj demo_env [demo_config] 0 [''bad.sql'', ''migrations/002.sql''])) =
       snd (lint_all demo_env ([demo_config] ! 0) [''bad.sql'', ''migrations/002.sql''])"
    by blast+
  have v: "snd (lint_all demo_env demo_config [''bad.sql'', ''migrations/002.sql'']) =
      [''bad.sql:1:1 error'']"
    by (simp add: lint_all_def lint_file_def Let_def demo_defs)
  from m a s v show ?thesis
    by simp
qed

subsection \<open>Showing a rule that is not registered\<close>

text \<open>
  C9, as stated, fails when \<^verbatim>\<open>--list-rules\<close> is given too: the rules are listed, the
  option \<^verbatim>\<open>--show-rule\<close> is not looked at, and the process ends with status 0.
\<close>

theorem show_rule_ignored_with_list_rules_counterexample:
  "arg_show_rule rules_show_unknown_args = Some ''NoSuchRule''
   \<and> load_rules demo_env (plugins demo_config) = Inr demo_registry
   \<and> get_meta demo_registry ''NoSuchRule'' = Inl (UnknownRuleException ''NoSuchRule'')
   \<and> exit_status (snd (main demo_env rules_show_unknown_args)) = 0"
  by (simp add: run_defs demo_defs)

text \<open>
  C9, amended: in a run that gets to \<^verbatim>\<open>show_rule\<close> (no \<^verbatim>\<open>--list-presets\<close>, the
  configuration file, if any, exists, the configuration and the rules load, no
  \<^verbatim>\<open>--list-rules\<close>, and the name given by \<^verbatim>\<open>--show-rule\<close> is not empty), a name that is
  not registered ends the process with status 1 and the message that the rule is unknown,
  right after the lookup, and nothing is printed.
\<close>

theorem show_rule_unknown_exits:
  assumes "\<not> arg_list_presets args"
    and "truthy (config_file_of env args) \<longrightarrow> path_exists env (the (config_file_of env args))"
    and "load_config env (config_file_of env args) (arg_preset args) = Inr base_config"
    and "load_rules env (plugins base_config) = Inr reg"
    and "\<not> arg_list_rules args"
    and "arg_show_rule args = Some name"
    and "name \<noteq> []"
    and "map_of reg name = None"
  shows "snd (main env args) =
           Inl (SystemExit_msg (Style_BRIGHT @ ''Unknown rule:'' @ Style_RESET_ALL @ '' '' @ name))
         \<and> exit_status (snd (main env args)) = 1
         \<and> last (fst (main env args)) = Registry_get_meta name
         \<and> \<not> list_ex is_print (fst (main env args))"
  by (simp add: main_loaded [OF assms(1-4)] assms(5-7) show_rule_unknown [OF assms(8)] io_after_def)

theorem show_rule_unknown_exits_witness:
  "snd (main demo_env show_unknown_args) =
     Inl (SystemExit_msg (Style_BRIGHT @ ''Unknown rule:'' @ Style_RESET_ALL @ '' NoSuchRule''))
   \<and> exit_status (snd (main demo_env show_unknown_args)) = 1
   \<and> \<not> list_ex is_print (fst (main demo_env show_unknown_args))"
proof -
  have h: "\<not> arg_list_presets show_unknown_args"
    "truthy (config_file_of demo_env show_unknown_args) \<longrightarrow>
       path_exists demo_env (the (config_file_of demo_env show_unknown_args))"
    "load_config demo_env (config_file_of demo_env show_unknown_args) (arg_preset show_unknown_args)
       = Inr demo_config"
    "load_rules demo_env (plugins demo_config) = Inr demo_registry"
    "\<not> arg_list_rules show_unknown_args"
    "arg_show_rule show_unknown_args = Some ''NoSuchRule''"
    "''NoSuchRule'' \<noteq> []"
    "map_of demo_registry ''NoSuchRule'' = None"
    by (simp_all add: demo_setup) (simp_all add: demo_defs)
  from show_rule_unknown_exits [OF h] show ?thesis
    by simp
qed

subsection \<open>Listing the presets\<close>

text \<open>
  C10: with \<^verbatim>\<open>--list-presets\<close> the run consists of the call to the logger, if
  \<^verbatim>\<open>--verbose\<close> is given, and, for each preset of the table in its order, of a line with
  its name and description and a line with its indented configuration; the process ends
  with status 0. Nothing else is called: no configuration is looked for or loaded, no rule
  is loaded, no path is examined, whatever \<^verbatim>\<open>--config\<close> and the paths are.
\<close>

theorem list_presets_returns_first:
  "arg_list_presets args \<Longrightarrow>
     main env args =
       ((if arg_verbose args then [Logger_setLevel ''DEBUG''] else []) @
        concat (map (\<lambda>(name, preset).
          [Print (Style_BRIGHT @ name @ Style_RESET_ALL @ '' - '' @
                  (case preset_description preset of None \<Rightarrow> [] | Some d \<Rightarrow> d)),
           Print (left_pad @ replace_newline (CHR 0x0A # left_pad) (preset_config preset))])
          (PRESETS env)),
        Inr ())
     \<and> exit_status (snd (main env args)) = 0
     \<and> length (filter is_print (fst (main env args))) = 2 * length (PRESETS env)
     \<and> list_all (\<lambda>ev. is_print ev \<or> ev = Logger_setLevel ''DEBUG'') (fst (main env args))"
proof -
  assume a: "arg_list_presets args"
  have n: "length (filter is_print (fst (list_presets env))) = 2 * length (PRESETS env)"
    by (simp add: list_presets_def two_prints)
  have m: "main env args = (verbose_events args @ fst (list_presets env), Inr ())"
    by (rule main_list_presets [OF a])
  have p: "list_all (\<lambda>ev. is_print ev \<or> ev = Logger_setLevel ''DEBUG'') (fst (main env args))"
    using list_presets_events [of env] by (simp add: m verbose_events_def) (simp add: list_all_iff)
  have l: "length (filter is_print (fst (main env args))) = 2 * length (PRESETS env)"
    by (simp add: m n verbose_events_def)
  show ?thesis
    using p l by (simp add: m) (simp add: verbose_events_def list_presets_def)
qed

theorem list_presets_returns_first_witness:
  "arg_config presets_args = Some ''missing.yml'' \<and> \<not> path_exists demo_env ''missing.yml''
   \<and> arg_PATHS presets_args = [''missing.sql''] \<and> \<not> path_exists demo_env ''missing.sql''
   \<and> main demo_env presets_args =
       ([Print (Style_BRIGHT @ ''postgres'' @ Style_RESET_ALL @ '' - A sane set of defaults''),
         Print (''    {'' @ [CHR 0x0A] @ ''    }'')],
        Inr ())
   \<and> exit_status (snd (main demo_env presets_args)) = 0"
proof -
  have h: "arg_list_presets presets_args"
    by (simp add: demo_defs)
  have w: "arg_config presets_args = Some ''missing.yml''" "\<not> path_exists demo_env ''missing.yml''"
    "arg_PATHS presets_args = [''missing.sql'']" "\<not> path_exists demo_env ''missing.sql''"
    by (simp_all add: demo_defs)
  have p: "(if arg_verbose presets_args then [Logger_setLevel ''DEBUG''] else []) @
        concat (map (\<lambda>(name, preset).
          [Print (Style_BRIGHT @ name @ Style_RESET_ALL @ '' - '' @
                  (case preset_description preset of None \<Rightarrow> [] | Some d \<Rightarrow> d)),
           Print (left_pad @ replace_newline (CHR 0x0A # left_pad) (preset_config preset))])
          (PRESETS demo_env)) =
       [Print (Style_BRIGHT @ ''postgres'' @ Style_RESET_ALL @ '' - A sane set of defaults''),
        Print (''    {'' @ [CHR 0x0A] @ ''    }'')]"
    by (simp add: demo_defs left_pad_def replace_newline_def)
  note t = list_presets_returns_first [OF h, of demo_env, unfolded p]
  from t w show ?thesis
    by blast
qed

end
